theory Spec2Isabelle
  imports Main
begin

section \<open>JavaScript values\<close>

text \<open>
  The values that reach \<open>Container.uses\<close>, \<open>openPath\<close> and \<open>_internalOpen\<close>.
  Numbers are integers (priorities and the play options of the scenarios are integers);
  strings are byte lists, a character beyond ASCII being its UTF-8 bytes.
  An object is the list of its data properties in enumeration order, with
  \<open>Object.prototype\<close> behind it; a function (a class is a function) is its source text,
  as \<open>Function.prototype.toString\<close> gives it, with the data properties read from it
  (a static \<open>priority\<close>, own or inherited from a parent class).
  Accessors, proxies, \<open>toString\<close>/\<open>valueOf\<close>/\<open>toJSON\<close> overrides and cyclic
  objects are outside the model.
\<close>

datatype js_value =
    JSUndefined
  | JSNull
  | JSBoolean bool
  | JSNumber int
  | JSString string
  | JSArray "js_value list"
  | JSObject "(string \<times> js_value) list"
  | JSFunction string "(string \<times> js_value) list"

datatype js_error =
    TypeError
  | Error string

fun typeof :: "js_value \<Rightarrow> string" where
  "typeof JSUndefined = ''undefined''"
| "typeof JSNull = ''object''"
| "typeof (JSBoolean b) = ''boolean''"
| "typeof (JSNumber n) = ''number''"
| "typeof (JSString s) = ''string''"
| "typeof (JSArray xs) = ''object''"
| "typeof (JSObject ps) = ''object''"
| "typeof (JSFunction src ps) = ''function''"

text \<open>ToBoolean: what \<open>if (v)\<close>, \<open>!v\<close> and \<open>a && b\<close> test.\<close>

fun truthy :: "js_value \<Rightarrow> bool" where
  "truthy JSUndefined = False"
| "truthy JSNull = False"
| "truthy (JSBoolean b) = b"
| "truthy (JSNumber n) = (n \<noteq> 0)"
| "truthy (JSString s) = (s \<noteq> [])"
| "truthy (JSArray xs) = True"
| "truthy (JSObject ps) = True"
| "truthy (JSFunction src ps) = True"

subsection \<open>Numbers and strings\<close>

function show_nat :: "nat \<Rightarrow> string" where
  "show_nat n =
     (if n < 10 then [''0123456789'' ! n]
      else show_nat (n div 10) @ [''0123456789'' ! (n mod 10)])"
  by pat_completeness auto
termination
  by (relation "measure id") auto

text \<open>
  The decimal digits of an integer, as Number::toString gives them below \<open>10^21\<close>
  (from there on JavaScript prints an exponent; such numbers are outside the model).
\<close>

definition show_int :: "int \<Rightarrow> string" where
  "show_int i = (if i < 0 then CHR ''-'' # show_nat (nat (- i)) else show_nat (nat i))"

text \<open>
  ToString, as a regular expression's \<open>test\<close> applies it to its argument. An array is
  its elements joined by commas, \<open>undefined\<close> and \<open>null\<close> elements being empty.
\<close>

fun ToString :: "js_value \<Rightarrow> string"
  and join_elements :: "js_value list \<Rightarrow> string" where
  "ToString JSUndefined = ''undefined''"
| "ToString JSNull = ''null''"
| "ToString (JSBoolean b) = (if b then ''true'' else ''false'')"
| "ToString (JSNumber n) = show_int n"
| "ToString (JSString s) = s"
| "ToString (JSArray xs) = join_elements xs"
| "ToString (JSObject ps) = ''[object Object]''"
| "ToString (JSFunction src ps) = src"
| "join_elements [] = []"
| "join_elements (x # xs) =
     (if x = JSUndefined \<or> x = JSNull then [] else ToString x)
     @ (if xs = [] then [] else CHR '','' # join_elements xs)"

subsection \<open>Property reads\<close>

fun own_props :: "js_value \<Rightarrow> (string \<times> js_value) list" where
  "own_props (JSObject ps) = ps"
| "own_props (JSFunction src ps) = ps"
| "own_props v = []"

text \<open>
  The only inherited property the code reads is \<open>constructor\<close>: the built-in
  constructor of the value's kind, a native function.
\<close>

fun native_constructor :: "js_value \<Rightarrow> js_value" where
  "native_constructor (JSBoolean b) = JSFunction ''function Boolean() { [native code] }'' []"
| "native_constructor (JSNumber n) = JSFunction ''function Number() { [native code] }'' []"
| "native_constructor (JSString s) = JSFunction ''function String() { [native code] }'' []"
| "native_constructor (JSArray xs) = JSFunction ''function Array() { [native code] }'' []"
| "native_constructor (JSFunction src ps) = JSFunction ''function Function() { [native code] }'' []"
| "native_constructor v = JSFunction ''function Object() { [native code] }'' []"

text \<open>\<open>v.k\<close>: reading a property of \<open>null\<close> or \<open>undefined\<close> throws a TypeError.\<close>

fun GetV :: "js_value \<Rightarrow> string \<Rightarrow> js_error + js_value" where
  "GetV JSUndefined k = Inl TypeError"
| "GetV JSNull k = Inl TypeError"
| "GetV v k =
     (case map_of (own_props v) k of
        Some x \<Rightarrow> Inr x
      | None \<Rightarrow> Inr (if k = ''constructor'' then native_constructor v else JSUndefined))"

section \<open>The plugin registry: \<open>Container.uses\<close>\<close>

text \<open>
  \<open>isConstructor\<close> of \<open>Container.uses\<close>:
  \<open>!!plugin.prototype && plugin.prototype.constructor && /^class/.test(plugin.prototype.constructor)\<close>,
  as the truth value \<open>!isConstructor()\<close> negates.
\<close>

definition isConstructor :: "js_value \<Rightarrow> js_error + bool" where
  "isConstructor plugin =
     (case GetV plugin ''prototype'' of
        Inl e \<Rightarrow> Inl e
      | Inr proto \<Rightarrow>
          if \<not> truthy proto then Inr False
          else (case GetV proto ''constructor'' of
                  Inl e \<Rightarrow> Inl e
                | Inr c \<Rightarrow> Inr (truthy c \<and> take 5 (ToString c) = ''class'')))"

text \<open>
  \<open>b.priority - a.priority\<close> is a number or NaN (\<open>None\<close>). ToNumber is modelled where it
  needs no parsing: a number is itself, \<open>null\<close> is 0, a boolean 0 or 1, and
  \<open>undefined\<close>, objects and functions are NaN. Strings and arrays, which JavaScript
  parses, are taken as NaN here; every statement below about the order of the registry is
  about priorities that are numbers.
\<close>

fun ToNumber :: "js_value \<Rightarrow> int option" where
  "ToNumber (JSNumber n) = Some n"
| "ToNumber JSNull = Some 0"
| "ToNumber (JSBoolean b) = Some (if b then 1 else 0)"
| "ToNumber v = None"

definition priority :: "js_value \<Rightarrow> int option" where
  "priority v = (case GetV v ''priority'' of Inl e \<Rightarrow> None | Inr p \<Rightarrow> ToNumber p)"

definition comparefn :: "js_value \<Rightarrow> js_value \<Rightarrow> int option" where
  "comparefn a b =
     (case (priority b, priority a) of
        (Some pb, Some pa) \<Rightarrow> Some (pb - pa)
      | _ \<Rightarrow> None)"

text \<open>SortCompare of \<open>Array.prototype.sort\<close>: a NaN from the comparator counts as \<open>+0\<close>.\<close>

definition SortCompare :: "js_value \<Rightarrow> js_value \<Rightarrow> int" where
  "SortCompare a b = (case comparefn a b of None \<Rightarrow> 0 | Some v \<Rightarrow> v)"

text \<open>
  \<open>Array.prototype.sort\<close> is stable. With a consistent comparator its result is
  determined; it is computed here by insertion. (With an inconsistent comparator, which
  a NaN priority gives, the standard leaves the order to the implementation.)
\<close>

fun insort_plugin :: "js_value \<Rightarrow> js_value list \<Rightarrow> js_value list" where
  "insort_plugin x [] = [x]"
| "insort_plugin x (y # ys) =
     (if SortCompare x y \<le> 0 then x # y # ys else y # insort_plugin x ys)"

definition sort_plugins :: "js_value list \<Rightarrow> js_value list" where
  "sort_plugins xs = foldr insort_plugin xs []"

text \<open>
  \<open>static uses(plugin = BasePlugin)\<close> on the registry \<open>PLUGINS\<close>. \<open>BasePlugin\<close> is imported
  from a module outside the sources at hand and is a parameter. The default replaces
  \<open>undefined\<close> only. \<open>isConstructor\<close> is evaluated only when \<open>typeof\<close> is not
  \<open>'function'\<close>; nothing is written before it can throw.
\<close>

definition uses :: "js_value \<Rightarrow> js_value \<Rightarrow> js_value list \<Rightarrow> js_error + js_value list" where
  "uses BasePlugin arg PLUGINS =
     (let plugin = (if arg = JSUndefined then BasePlugin else arg) in
      if typeof plugin \<noteq> ''function'' then
        (case isConstructor plugin of
           Inl e \<Rightarrow> Inl e
         | Inr c \<Rightarrow> if \<not> c then Inr PLUGINS else Inr (sort_plugins (PLUGINS @ [plugin])))
      else Inr (sort_plugins (PLUGINS @ [plugin])))"


definition clearPlugins :: "js_value list \<Rightarrow> js_value list" where
  "clearPlugins PLUGINS = []"

section \<open>Serialising the play options\<close>

text \<open>
  \<open>JSON.stringify\<close>. QuoteJSONString escapes the double quote (0x22), the backslash
  (0x5C) and the control characters below 0x20; every other byte stands for itself.
\<close>

definition hex_digit :: "nat \<Rightarrow> char" where
  "hex_digit n = ''0123456789abcdef'' ! (n mod 16)"

definition quote_char :: "char \<Rightarrow> string" where
  "quote_char c =
     (if c = CHR 0x22 then [CHR 0x5C, CHR 0x22]
      else if c = CHR 0x5C then [CHR 0x5C, CHR 0x5C]
      else if c = CHR 0x08 then [CHR 0x5C, CHR ''b'']
      else if c = CHR 0x0C then [CHR 0x5C, CHR ''f'']
      else if c = CHR 0x0A then [CHR 0x5C, CHR ''n'']
      else if c = CHR 0x0D then [CHR 0x5C, CHR ''r'']
      else if c = CHR 0x09 then [CHR 0x5C, CHR ''t'']
      else if (of_char c :: nat) < 32 then
        [CHR 0x5C, CHR ''u'', CHR ''0'', CHR ''0'',
         hex_digit ((of_char c :: nat) div 16), hex_digit (of_char c :: nat)]
      else [c])"

definition QuoteJSONString :: "string \<Rightarrow> string" where
  "QuoteJSONString s = CHR 0x22 # concat (map quote_char s) @ [CHR 0x22]"

fun comma_join :: "string list \<Rightarrow> string" where
  "comma_join [] = []"
| "comma_join [x] = x"
| "comma_join (x # y # ys) = x @ CHR '','' # comma_join (y # ys)"

text \<open>
  SerializeJSONProperty: \<open>None\<close> is the result \<open>undefined\<close> (for \<open>undefined\<close> and for a
  function). A member whose value serialises to \<open>undefined\<close> is left out of an object
  and is \<open>null\<close> in an array.
\<close>

fun stringify :: "js_value \<Rightarrow> string option"
  and stringify_members :: "(string \<times> js_value) list \<Rightarrow> string list"
  and stringify_elements :: "js_value list \<Rightarrow> string list" where
  "stringify JSUndefined = None"
| "stringify JSNull = Some ''null''"
| "stringify (JSBoolean b) = Some (if b then ''true'' else ''false'')"
| "stringify (JSNumber n) = Some (show_int n)"
| "stringify (JSString s) = Some (QuoteJSONString s)"
| "stringify (JSArray xs) = Some (''['' @ comma_join (stringify_elements xs) @ '']'')"
| "stringify (JSObject ps) = Some (''{'' @ comma_join (stringify_members ps) @ ''}'')"
| "stringify (JSFunction src ps) = None"
| "stringify_members [] = []"
| "stringify_members ((k, v) # ps) =
     (case stringify v of
        None \<Rightarrow> stringify_members ps
      | Some t \<Rightarrow> (QuoteJSONString k @ '':'' @ t) # stringify_members ps)"
| "stringify_elements [] = []"
| "stringify_elements (x # xs) =
     (case stringify x of None \<Rightarrow> ''null'' | Some t \<Rightarrow> t) # stringify_elements xs"

text \<open>
  \<open>encodeURIComponent\<close> of a string given as UTF-8 bytes: the letters, the digits and
  \<open>- _ . ! ~ * ' ( )\<close> stand for themselves, every other byte is \<open>%XX\<close> in upper-case
  hexadecimal. Its argument is converted to a string first, \<open>undefined\<close> to
  \<open>'undefined'\<close>.
\<close>

definition uriUnescaped :: "char \<Rightarrow> bool" where
  "uriUnescaped c =
     (c \<in> set (''ABCDEFGHIJKLMNOPQRSTUVWXYZabcdefghijklmnopqrstuvwxyz0123456789-_.!~*()''
                @ [CHR 0x27]))"

definition HEX_digit :: "nat \<Rightarrow> char" where
  "HEX_digit n = ''0123456789ABCDEF'' ! (n mod 16)"

definition encode_char :: "char \<Rightarrow> string" where
  "encode_char c =
     (if uriUnescaped c then [c]
      else [CHR ''%'', HEX_digit ((of_char c :: nat) div 16), HEX_digit (of_char c :: nat)])"

definition encodeURIComponent :: "string option \<Rightarrow> string" where
  "encodeURIComponent x =
     (case x of None \<Rightarrow> ''undefined'' | Some s \<Rightarrow> concat (map encode_char s))"

section \<open>The container\<close>

text \<open>
  The iframe element is one object of the document; \<open>this.main\<close> and \<open>this.dom\<close> both
  refer to it, or are \<open>null\<close>. The element is kept in the field \<open>element\<close>, the two
  references beside it.
\<close>

record iframe =
  src :: string
  classList :: "string list"

datatype ref = NullRef | ElementRef

datatype plugin_instance = Instance js_value

datatype hook = open_hook | opened_hook | close_hook | closed_hook | teardown_hook

text \<open>
  What the container does to its collaborators, in the order it does it. A Bellhop
  client is an object created by \<open>new Bellhop()\<close>; the number tells one client from
  another. A plugin instance is told by the constructor it was made from. The hooks
  belong to the plugins: a call is recorded, returns, and leaves the container's fields
  as they are.
\<close>

datatype event =
    NewBellhop nat
  | BellhopConnect nat
  | BellhopOn nat string
  | BellhopTrigger nat string
  | BellhopRespond nat string js_value
  | BellhopSend nat string
  | BellhopDestroy nat
  | PluginHook hook plugin_instance

record container =
  element :: iframe
  main :: ref
  dom :: ref
  client :: "nat option"
  loaded :: bool
  loading :: bool
  options :: js_value
  release :: js_value
  plugins :: "plugin_instance list"
  trace :: "event list"
  next_client :: nat

text \<open>
  A method either returns or throws; the fields written before a throw stay written.
\<close>

datatype completion = Normal | Throw js_error

type_synonym operation = "container \<Rightarrow> completion \<times> container"

definition andThen :: "operation \<Rightarrow> operation \<Rightarrow> operation" where
  "andThen f g s = (case f s of (Normal, s') \<Rightarrow> g s' | (Throw e, s') \<Rightarrow> (Throw e, s'))"

definition skip :: operation where
  "skip s = (Normal, s)"

definition record_events :: "event list \<Rightarrow> operation" where
  "record_events es s = (Normal, s\<lparr>trace := trace s @ es\<rparr>)"

subsection \<open>Calls on \<open>this.client\<close>, \<open>this.main\<close> and \<open>this.plugins\<close>\<close>

definition client_trigger :: "string \<Rightarrow> operation" where
  "client_trigger name s =
     (case client s of
        None \<Rightarrow> (Throw TypeError, s)
      | Some c \<Rightarrow> record_events [BellhopTrigger c name] s)"

definition client_send :: "string \<Rightarrow> operation" where
  "client_send name s =
     (case client s of
        None \<Rightarrow> (Throw TypeError, s)
      | Some c \<Rightarrow> record_events [BellhopSend c name] s)"

definition client_respond :: "string \<Rightarrow> js_value \<Rightarrow> operation" where
  "client_respond name v s =
     (case client s of
        None \<Rightarrow> (Throw TypeError, s)
      | Some c \<Rightarrow> record_events [BellhopRespond c name v] s)"

definition main_setAttribute_src :: "string \<Rightarrow> operation" where
  "main_setAttribute_src v s =
     (case main s of
        NullRef \<Rightarrow> (Throw TypeError, s)
      | ElementRef \<Rightarrow> (Normal, s\<lparr>element := (element s)\<lparr>src := v\<rparr>\<rparr>))"

definition main_classList_add :: "string \<Rightarrow> operation" where
  "main_classList_add c s =
     (case main s of
        NullRef \<Rightarrow> (Throw TypeError, s)
      | ElementRef \<Rightarrow>
          (Normal, s\<lparr>element := (element s)
             \<lparr>classList := (if c \<in> set (classList (element s)) then classList (element s)
                             else classList (element s) @ [c])\<rparr>\<rparr>))"

definition main_classList_remove :: "string \<Rightarrow> operation" where
  "main_classList_remove c s =
     (case main s of
        NullRef \<Rightarrow> (Throw TypeError, s)
      | ElementRef \<Rightarrow>
          (Normal, s\<lparr>element := (element s)\<lparr>classList := removeAll c (classList (element s))\<rparr>\<rparr>))"

text \<open>\<open>this.plugins.forEach(plugin => plugin.h(this))\<close>\<close>

definition plugins_forEach :: "hook \<Rightarrow> operation" where
  "plugins_forEach h s = record_events (map (PluginHook h) (plugins s)) s"

text \<open>\<open>this.plugins.slice().reverse().forEach(plugin => plugin.h(this))\<close>\<close>

definition plugins_reverse_forEach :: "hook \<Rightarrow> operation" where
  "plugins_reverse_forEach h s = record_events (map (PluginHook h) (rev (plugins s))) s"

subsection \<open>The constructor\<close>

text \<open>
  \<open>new plugin(this)\<close> throws a TypeError for a value that is not a function; a function
  stands for a class or an ordinary function, which construct.
\<close>

fun construct_plugins :: "js_value list \<Rightarrow> js_error + plugin_instance list" where
  "construct_plugins [] = Inr []"
| "construct_plugins (p # ps) =
     (if typeof p \<noteq> ''function'' then Inl TypeError
      else (case construct_plugins ps of
              Inl e \<Rightarrow> Inl e
            | Inr is \<Rightarrow> Inr (Instance p # is)))"

text \<open>
  \<open>new Container(iframeSelector, options)\<close>, with the document's \<open>querySelector\<close> and the
  registry as they are at the call. A throw leaves the caller without a container.
\<close>

definition Container :: "(string \<Rightarrow> iframe option) \<Rightarrow> js_value list \<Rightarrow> string \<Rightarrow> js_value
    \<Rightarrow> js_error + container" where
  "Container querySelector PLUGINS iframeSelector opts =
     (case querySelector iframeSelector of
        None \<Rightarrow> Inl (Error ''No iframe was found with the provided selector'')
      | Some el \<Rightarrow>
          (case construct_plugins PLUGINS of
             Inl e \<Rightarrow> Inl e
           | Inr is \<Rightarrow>
               Inr \<lparr>element = el, main = ElementRef, dom = ElementRef, client = Some 0,
                    loaded = False, loading = False,
                    options = (if opts = JSUndefined then JSObject [] else opts),
                    release = JSNull, plugins = is, trace = [NewBellhop 0],
                    next_client = 1\<rparr>))"

subsection \<open>The methods\<close>

definition destroyClient :: operation where
  "destroyClient s =
     (case client s of
        None \<Rightarrow> (Normal, s)
      | Some c \<Rightarrow> (Normal, s\<lparr>trace := trace s @ [BellhopDestroy c], client := None\<rparr>))"

definition onLoading :: operation where
  "onLoading = client_trigger ''opening''"


definition reset :: operation where
  "reset s =
     (let wasLoaded = (loaded s \<or> loading s) in
        andThen (if wasLoaded then plugins_reverse_forEach closed_hook else skip)
       (andThen (if wasLoaded then client_trigger ''closed'' else skip)
       (andThen destroyClient
       (andThen (\<lambda>s. (Normal, s\<lparr>loaded := False, loading := False\<rparr>))
       (andThen (main_setAttribute_src [])
                (main_classList_remove ''loading''))))) s)"

definition onEndGame :: operation where
  "onEndGame = reset"

definition onCloseFailed :: operation where
  "onCloseFailed = reset"

text \<open>
  \<open>initClient\<close>: \<open>new Bellhop()\<close>, \<open>connect(this.dom)\<close> and the five handlers, on the
  new client \<open>c\<close>. Of the handlers, \<open>onLoading\<close>, \<open>onLoadDone\<close> and \<open>onEndGame\<close> are
  modelled. \<open>onProgress\<close> and \<open>onLocalError\<close> trigger, on the client, the event they are
  themselves registered for; what the client does with that is Bellhop's and is left out.
\<close>

definition initClient_events :: "nat \<Rightarrow> event list" where
  "initClient_events c =
     [NewBellhop c, BellhopConnect c,
      BellhopOn c ''loading'', BellhopOn c ''progress'',
      BellhopOn c ''loaded'', BellhopOn c ''endGame'',
      BellhopOn c ''localError'']"

definition initClient :: operation where
  "initClient s =
     (let c = next_client s in
        (Normal, s\<lparr>client := Some c, next_client := Suc c,
                    trace := trace s @ initClient_events c\<rparr>))"

text \<open>
  The parameter pattern \<open>{ singlePlay = false, playOptions = null } = {}\<close>: the defaults
  replace \<open>undefined\<close> only, and destructuring \<open>null\<close> throws.
\<close>

definition open_options :: "js_value \<Rightarrow> js_error + js_value \<times> js_value" where
  "open_options userOptions =
     (let obj = (if userOptions = JSUndefined then JSObject [] else userOptions) in
      case GetV obj ''singlePlay'' of
        Inl e \<Rightarrow> Inl e
      | Inr sp \<Rightarrow>
          (case GetV obj ''playOptions'' of
             Inl e \<Rightarrow> Inl e
           | Inr po \<Rightarrow>
               Inr (if sp = JSUndefined then JSBoolean False else sp,
                    if po = JSUndefined then JSNull else po)))"

text \<open>The path given to the iframe (lines 210 to 220 of \<open>_internalOpen\<close>).\<close>

definition open_path :: "string \<Rightarrow> js_value \<Rightarrow> string" where
  "open_path userPath playOptions =
     (if playOptions \<noteq> JSNull then
        (let playOptionsQueryString =
               ''playOptions='' @ encodeURIComponent (stringify playOptions) in
         if CHR ''?'' \<notin> set userPath then userPath @ ''?'' @ playOptionsQueryString
         else userPath @ ''&'' @ playOptionsQueryString)
      else userPath)"

text \<open>
  \<open>_internalOpen(userPath, userOptions)\<close>. \<open>features_basic\<close> is what \<open>Features.basic()\<close>
  returns in the environment: an error message, or a falsy value when the browser is
  supported.
\<close>

definition internalOpen :: "js_value \<Rightarrow> string \<Rightarrow> js_value \<Rightarrow> operation" where
  "internalOpen features_basic userPath userOptions s =
     (case open_options userOptions of
        Inl e \<Rightarrow> (Throw e, s)
      | Inr (singlePlay, playOptions) \<Rightarrow>
          andThen reset
            (if truthy features_basic then client_trigger ''unsupported''
             else
               andThen (\<lambda>s. (Normal, s\<lparr>loading := True\<rparr>))
              (andThen initClient
              (andThen (plugins_forEach open_hook)
              (andThen (main_classList_add ''loading'')
              (andThen (main_setAttribute_src (open_path userPath playOptions))
              (andThen (client_respond ''singlePlay'' singlePlay)
              (andThen (client_respond ''playOptions'' playOptions)
                       (client_trigger ''open'')))))))) s)"

definition openPath :: "js_value \<Rightarrow> string \<Rightarrow> js_value \<Rightarrow> js_value \<Rightarrow> operation" where
  "openPath features_basic path opts playOpts =
     (let options0 = (if opts = JSUndefined then JSObject [] else opts);
          playOptions = (if playOpts = JSUndefined then JSObject [] else playOpts);
          options1 =
            (if typeof options0 = ''boolean''
             then JSObject [(''singlePlay'', JSBoolean False), (''playOptions'', playOptions)]
             else options0)
      in internalOpen features_basic path options1)"

definition destroy :: operation where
  "destroy =
     andThen reset
    (andThen (plugins_reverse_forEach teardown_hook)
             (\<lambda>s. (Normal, s\<lparr>main := NullRef, options := JSNull, dom := NullRef\<rparr>)))"


section \<open>The captions plugin\<close>

text \<open>
  The captions styles are an object of string-valued properties, here a map from the
  property name to its value. Only the properties written by the plugin are in it: a
  name the object inherits (\<open>constructor\<close>, \<open>toString\<close>) is not a style.
\<close>

type_synonym styles = "string \<rightharpoonup> string"

definition DEFAULT_CAPTIONS_STYLES :: styles where
  "DEFAULT_CAPTIONS_STYLES =
     [''size'' \<mapsto> ''md'', ''background'' \<mapsto> ''black-semi'', ''color'' \<mapsto> ''white'',
      ''edge'' \<mapsto> ''none'', ''font'' \<mapsto> ''arial'', ''align'' \<mapsto> ''top'']"

text \<open>
  Modelled from the spec: \<open>Object.merge\<close> is a helper of the framework and not among
  the sources. By sections 6 and 8 the styles read back after a set are the styles set,
  and the defaults are completed by the saved styles: the properties of the source are
  written over those of the target. Style values are strings, so there is nothing to
  merge below a property.
\<close>

definition Object_merge :: "styles \<Rightarrow> styles \<Rightarrow> styles" where
  "Object_merge target source = target ++ source"

text \<open>
  The plugin's state: \<open>_captionsStyles\<close>, what \<open>SavedData\<close> holds under the key
  \<open>'captionsStyles'\<close>, whether \<open>this.client\<close> is set, and the styles sent over it.
\<close>

record captions =
  captionsStyles :: styles
  saved_styles :: "styles option"
  has_client :: bool
  sent_styles :: "styles list"

datatype outcome = Returned | Threw string

text \<open>
  The first argument of \<open>setCaptionsStyles\<close>: an object, \<open>null\<close> (whose \<open>typeof\<close> is
  \<open>'object'\<close> too), a property name with the value given as second argument, or
  anything else (\<open>undefined\<close> when called without arguments).
\<close>

datatype styles_arg =
    StylesObject styles
  | StylesNull
  | StylesProperty string string
  | StylesOther

subsection \<open>The validation patterns\<close>

definition ends_with :: "string \<Rightarrow> string \<Rightarrow> bool" where
  "ends_with c s = (drop (length s - length c) s = c)"

definition color_names :: "string list" where
  "color_names =
     [''black'', ''white'', ''red'', ''yellow'', ''pink'', ''blue'',
      ''black-semi'', ''white-semi'', ''red-semi'', ''yellow-semi'', ''pink-semi'',
      ''blue-semi'']"

text \<open>\<open>/^(black|white|red|yellow|pink|blue)(-semi)?$/\<close>\<close>

definition colorReg :: "string \<Rightarrow> bool" where
  "colorReg s = (s \<in> set color_names)"

text \<open>
  \<open>/^none|((black|white|red|yellow|pink|blue)(-semi)?)$/\<close>: the alternation is the outermost
  operator, so the pattern matches a string that starts with \<open>none\<close> and a string that
  ends with a colour.
\<close>

definition backgroundReg :: "string \<Rightarrow> bool" where
  "backgroundReg s = (take 4 s = ''none'' \<or> list_ex (\<lambda>c. ends_with c s) color_names)"

text \<open>\<open>/^(xs|sm|md|lg|xl)$/\<close>\<close>

definition sizeReg :: "string \<Rightarrow> bool" where
  "sizeReg s = (s \<in> set [''xs'', ''sm'', ''md'', ''lg'', ''xl''])"

text \<open>\<open>/^(raise|depress|uniform|drop|none)$/\<close>\<close>

definition edgeReg :: "string \<Rightarrow> bool" where
  "edgeReg s = (s \<in> set [''raise'', ''depress'', ''uniform'', ''drop'', ''none''])"

definition fontReg :: "string \<Rightarrow> bool" where
  "fontReg s =
     (s \<in> set [''georgia'', ''palatino'', ''times'', ''arial'', ''arial-black'',
               ''comic-sans'', ''impact'', ''lucida'', ''tahoma'', ''trebuchet'',
               ''verdana'', ''courier'', ''console''])"

text \<open>\<open>/^(top|bottom)$/\<close>\<close>

definition alignReg :: "string \<Rightarrow> bool" where
  "alignReg s = (s \<in> set [''top'', ''bottom''])"

text \<open>\<open>!styles.p || !reg.test(styles.p)\<close>: a missing and an empty value are falsy.\<close>

definition invalid_style :: "(string \<Rightarrow> bool) \<Rightarrow> string option \<Rightarrow> bool" where
  "invalid_style reg v = (case v of None \<Rightarrow> True | Some x \<Rightarrow> x = [] \<or> \<not> reg x)"

definition shown :: "string option \<Rightarrow> string" where
  "shown v = (case v of None \<Rightarrow> ''undefined'' | Some x \<Rightarrow> x)"

text \<open>The checks made when \<open>DEBUG\<close> is set, in their order; the first failure throws.\<close>

definition validate :: "styles \<Rightarrow> string option" where
  "validate st =
     (if invalid_style colorReg (st ''color'') then
        Some (''Setting captions color style is invalid value : '' @ shown (st ''color''))
      else if invalid_style backgroundReg (st ''background'') then
        Some (''Setting captions background style is invalid value : ''
              @ shown (st ''background''))
      else if invalid_style sizeReg (st ''size'') then
        Some (''Setting captions size style is invalid value : '' @ shown (st ''size''))
      else if invalid_style edgeReg (st ''edge'') then
        Some (''Setting captions edge style is invalid value : '' @ shown (st ''edge''))
      else if invalid_style fontReg (st ''font'') then
        Some (''Setting captions font style is invalid value : '' @ shown (st ''font''))
      else if invalid_style alignReg (st ''align'') then
        Some (''Setting captions align style is invalid value : '' @ shown (st ''align''))
      else None)"

subsection \<open>Setting, reading and clearing\<close>

text \<open>\<open>SavedData.write(CAPTIONS_STYLES, styles)\<close>, then the send when there is a client.\<close>

definition write_styles :: "captions \<Rightarrow> captions" where
  "write_styles p =
     (let p1 = p\<lparr>saved_styles := Some (captionsStyles p)\<rparr> in
      if has_client p1 then p1\<lparr>sent_styles := sent_styles p1 @ [captionsStyles p1]\<rparr> else p1)"

text \<open>
  \<open>setCaptionsStyles(styles, value)\<close>; \<open>DEBUG\<close> is a constant of the build. The styles
  are merged before they are validated, so a throw leaves them merged, unsaved and unsent.
\<close>

definition setCaptionsStyles :: "bool \<Rightarrow> styles_arg \<Rightarrow> captions \<Rightarrow> outcome \<times> captions" where
  "setCaptionsStyles DEBUG arg p =
     (let p1 =
        (case arg of
           StylesObject st \<Rightarrow> p\<lparr>captionsStyles := Object_merge (captionsStyles p) st\<rparr>
         | StylesNull \<Rightarrow> p\<lparr>captionsStyles := Object_merge (captionsStyles p) Map.empty\<rparr>
         | StylesProperty k v \<Rightarrow> p\<lparr>captionsStyles := (captionsStyles p)(k \<mapsto> v)\<rparr>
         | StylesOther \<Rightarrow> p)
      in
        if DEBUG then
          (case validate (captionsStyles p1) of
             Some msg \<Rightarrow> (Threw msg, p1)
           | None \<Rightarrow> (Returned, write_styles p1))
        else (Returned, write_styles p1))"

text \<open>
  \<open>getCaptionsStyles(prop)\<close> is \<open>prop ? styles[prop] : styles\<close>: without a property name,
  or with the empty one, the whole object.
\<close>

datatype styles_result = AllStyles styles | StyleValue "string option"

definition getCaptionsStyles :: "string option \<Rightarrow> captions \<Rightarrow> styles_result" where
  "getCaptionsStyles prop p =
     (case prop of
        None \<Rightarrow> AllStyles (captionsStyles p)
      | Some k \<Rightarrow> if k = [] then AllStyles (captionsStyles p)
                  else StyleValue (captionsStyles p k))"

definition clearCaptionsStyles :: "bool \<Rightarrow> captions \<Rightarrow> outcome \<times> captions" where
  "clearCaptionsStyles DEBUG p =
     setCaptionsStyles DEBUG StylesOther
       (p\<lparr>captionsStyles := Object_merge Map.empty DEFAULT_CAPTIONS_STYLES\<rparr>)"

section \<open>Priority order\<close>



section \<open>Example data\<close>

text \<open>
  A document with one iframe, two plugin classes, and the container constructed from
  them; its states after a first \<open>open\<close> and after the application has loaded.
\<close>

definition example_querySelector :: "string \<Rightarrow> iframe option" where
  "example_querySelector selector =
     (if selector = ''#frame'' then Some \<lparr>src = [], classList = []\<rparr> else None)"

definition PluginA :: js_value where
  "PluginA = JSFunction ''class PluginA extends BasePlugin {}'' [(''priority'', JSNumber 1)]"

definition PluginB :: js_value where
  "PluginB = JSFunction ''class PluginB extends BasePlugin {}'' [(''priority'', JSNumber 2)]"

definition example_container :: container where
  "example_container =
     \<lparr>element = \<lparr>src = [], classList = []\<rparr>, main = ElementRef, dom = ElementRef,
      client = Some 0, loaded = False, loading = False, options = JSObject [],
      release = JSNull, plugins = [Instance PluginB, Instance PluginA],
      trace = [NewBellhop 0], next_client = 1\<rparr>"

definition example_loading :: container where
  "example_loading = snd (internalOpen JSNull ''/game'' JSUndefined example_container)"







definition example_captions :: captions where
  "example_captions =
     \<lparr>captionsStyles = DEFAULT_CAPTIONS_STYLES, saved_styles = None, has_client = True,
      sent_styles = []\<rparr>"

section \<open>The registry: order and registration\<close>

lemma length_insort_plugin: "length (insort_plugin x ys) = Suc (length ys)"
  by (induction ys) simp_all

lemma length_sort_plugins: "length (sort_plugins xs) = length xs"
  by (induction xs) (simp_all add: sort_plugins_def length_insort_plugin)

lemma set_insort_plugin: "set (insort_plugin x ys) = insert x (set ys)"
  by (induction ys) auto

lemma set_sort_plugins: "set (sort_plugins xs) = set xs"
  by (induction xs) (simp_all add: sort_plugins_def set_insort_plugin)

text \<open>
  When every priority is a number, the comparator orders by the negated priority and the
  sort is the library's stable insertion sort on that key.
\<close>

lemma insort_plugin_insort_key:
  assumes "priority x = Some px" "\<forall>y\<in>set ys. priority y \<noteq> None"
  shows "insort_plugin x ys = insort_key (\<lambda>v. - the (priority v)) x ys"
  using assms(2)
proof (induction ys)
  case Nil
  then show ?case by simp
next
  case (Cons y ys)
  then obtain py where "priority y = Some py" by auto
  with Cons assms(1) show ?case
    by (simp add: SortCompare_def comparefn_def)
qed

lemma sort_plugins_sort_key:
  assumes "\<forall>v\<in>set xs. priority v \<noteq> None"
  shows "sort_plugins xs = sort_key (\<lambda>v. - the (priority v)) xs"
  using assms
proof (induction xs)
  case Nil
  then show ?case by (simp add: sort_plugins_def)
next
  case (Cons x xs)
  then obtain px where px: "priority x = Some px" by auto
  from Cons have ih: "sort_plugins xs = sort_key (\<lambda>v. - the (priority v)) xs" by simp
  have "\<forall>y\<in>set (sort_key (\<lambda>v. - the (priority v)) xs). priority y \<noteq> None"
    using Cons.prems by simp
  then have "insort_plugin x (sort_key (\<lambda>v. - the (priority v)) xs)
      = insort_key (\<lambda>v. - the (priority v)) x (sort_key (\<lambda>v. - the (priority v)) xs)"
    using px by (rule insort_plugin_insort_key [rotated])
  then show ?case
    using ih by (simp add: sort_plugins_def)
qed


lemma sort_plugins_stable:
  assumes "\<forall>v\<in>set xs. priority v \<noteq> None"
  shows "filter (\<lambda>v. priority v = Some k) (sort_plugins xs) = filter (\<lambda>v. priority v = Some k) xs"
proof -
  have "filter (\<lambda>v. - the (priority v) = - k) (sort_key (\<lambda>v. - the (priority v)) xs)
      = filter (\<lambda>v. - the (priority v) = - k) xs"
    by (rule sort_key_stable)
  moreover have "filter (\<lambda>v. - the (priority v) = - k) ys = filter (\<lambda>v. priority v = Some k) ys"
    if "set ys \<subseteq> set xs" for ys
    using that assms by (intro filter_cong) auto
  ultimately show ?thesis
    using sort_plugins_sort_key [OF assms] by simp
qed

text \<open>A call that returns either skipped the value or pushed it and sorted.\<close>

lemma uses_cases:
  assumes "uses BasePlugin arg PLUGINS = Inr PLUGINS'"
  shows "PLUGINS' = PLUGINS
       \<or> PLUGINS' = sort_plugins (PLUGINS @ [if arg = JSUndefined then BasePlugin else arg])"
  using assms by (auto simp add: uses_def Let_def split: if_splits sum.splits)

lemma uses_function:
  "typeof v = ''function'' \<Longrightarrow> uses BasePlugin v PLUGINS = Inr (sort_plugins (PLUGINS @ [v]))"
  by (cases v) (simp_all add: uses_def)

lemma uses_skip_not_function:
  assumes "uses BasePlugin v PLUGINS = Inr PLUGINS"
  shows "typeof (if v = JSUndefined then BasePlugin else v) \<noteq> ''function''"
proof
  assume "typeof (if v = JSUndefined then BasePlugin else v) = ''function''"
  then have "uses BasePlugin v PLUGINS =
      Inr (sort_plugins (PLUGINS @ [if v = JSUndefined then BasePlugin else v]))"
    by (simp add: uses_def)
  with assms have "length PLUGINS =
      length (sort_plugins (PLUGINS @ [if v = JSUndefined then BasePlugin else v]))"
    by simp
  then show False by (simp add: length_sort_plugins)
qed



text \<open>
  A registration keeps the entries of one priority in the order they were registered,
  the new entry after the older ones.
\<close>

lemma uses_stable:
  assumes "uses BasePlugin arg PLUGINS = Inr PLUGINS'" "PLUGINS' \<noteq> PLUGINS"
    and "\<forall>v\<in>set PLUGINS'. priority v \<noteq> None"
  shows "filter (\<lambda>v. priority v = Some k) PLUGINS' =
         filter (\<lambda>v. priority v = Some k) (PLUGINS @ [if arg = JSUndefined then BasePlugin else arg])"
proof -
  from uses_cases [OF assms(1)] assms(2)
  have eq: "PLUGINS' = sort_plugins (PLUGINS @ [if arg = JSUndefined then BasePlugin else arg])"
    by simp
  then have "\<forall>v\<in>set (PLUGINS @ [if arg = JSUndefined then BasePlugin else arg]). priority v \<noteq> None"
    using assms(3) by (simp add: set_sort_plugins)
  then show ?thesis unfolding eq by (rule sort_plugins_stable)
qed

text \<open>
  The teardown hooks of \<open>destroy\<close> run over the reversed registry the container was
  constructed from.
\<close>

lemma destroy_teardown_order:
  assumes "Container querySelector PLUGINS iframeSelector opts = Inr s"
  shows "plugins s = map Instance PLUGINS
       \<and> (\<exists>s'. destroy s = (Normal, s')
            \<and> trace s' = trace s @ [BellhopDestroy 0]
                  @ map (PluginHook teardown_hook) (map Instance (rev PLUGINS)))"
proof -
  have 1: "construct_plugins ps = Inr is \<Longrightarrow> is = map Instance ps" for ps "is"
    by (induction ps arbitrary: "is") (auto split: if_splits sum.splits)
  from assms obtain el "is" where el: "querySelector iframeSelector = Some el"
    and c: "construct_plugins PLUGINS = Inr is"
    by (auto simp add: Container_def split: option.splits sum.splits)
  with assms have s: "s = \<lparr>element = el, main = ElementRef, dom = ElementRef, client = Some 0,
                    loaded = False, loading = False,
                    options = (if opts = JSUndefined then JSObject [] else opts),
                    release = JSNull, plugins = is, trace = [NewBellhop 0],
                    next_client = 1\<rparr>"
    by (simp add: Container_def)
  show ?thesis
    using 1 [OF c]
    by (simp add: s destroy_def reset_def andThen_def Let_def rev_map
        record_events_def main_setAttribute_src_def main_classList_remove_def
        plugins_reverse_forEach_def destroyClient_def skip_def)
qed

text \<open>
  Claim C1. A value that is not callable is to be skipped silently, without an error.
  For \<open>null\<close> the code does not do so: \<open>typeof null\<close> is \<open>'object'\<close>, so
  \<open>isConstructor\<close> is evaluated and its read of \<open>plugin.prototype\<close> throws a TypeError,
  whatever \<open>BasePlugin\<close> and the registry are. Another value that is not callable, the
  number 0, is skipped and leaves the registry as it was.
\<close>

theorem uses_null_throws:
  "uses BasePlugin JSNull PLUGINS = Inl TypeError
   \<and> uses BasePlugin (JSNumber 0) PLUGINS = Inr PLUGINS"
  by (simp add: uses_def isConstructor_def)

text \<open>
  Claim C10. Called without an argument, or with \<open>undefined\<close>, \<open>uses\<close> registers
  \<open>BasePlugin\<close> (a class): the call is the call with \<open>BasePlugin\<close>, the registry gains
  that one entry, and a call that returns with the registry unchanged was given a value
  other than \<open>undefined\<close> whose \<open>typeof\<close> is not \<open>'function'\<close>.
\<close>

theorem uses_default_registers:
  assumes "typeof BasePlugin = ''function''"
  shows "uses BasePlugin JSUndefined PLUGINS = Inr (sort_plugins (PLUGINS @ [BasePlugin]))
       \<and> uses BasePlugin JSUndefined PLUGINS = uses BasePlugin BasePlugin PLUGINS
       \<and> BasePlugin \<in> set (sort_plugins (PLUGINS @ [BasePlugin]))
       \<and> length (sort_plugins (PLUGINS @ [BasePlugin])) = Suc (length PLUGINS)
       \<and> (uses BasePlugin v PLUGINS = Inr PLUGINS \<longrightarrow>
            v \<noteq> JSUndefined \<and> typeof v \<noteq> ''function'')"
proof -
  have a: "uses BasePlugin JSUndefined PLUGINS = Inr (sort_plugins (PLUGINS @ [BasePlugin]))"
    using assms by (simp add: uses_def)
  have b: "uses BasePlugin BasePlugin PLUGINS = Inr (sort_plugins (PLUGINS @ [BasePlugin]))"
    using assms by (rule uses_function)
  have c: "v \<noteq> JSUndefined \<and> typeof v \<noteq> ''function''"
    if "uses BasePlugin v PLUGINS = Inr PLUGINS"
    using uses_skip_not_function [OF that] assms by (auto split: if_splits)
  show ?thesis
    using a b c by (simp add: set_sort_plugins length_sort_plugins)
qed

theorem uses_default_registers_witness:
  "typeof PluginA = ''function''
   \<and> uses PluginA JSUndefined [PluginB] = Inr [PluginB, PluginA]
   \<and> uses PluginA (JSNumber 7) [PluginB] = Inr [PluginB]
   \<and> JSNumber 7 \<noteq> JSUndefined \<and> typeof (JSNumber 7) \<noteq> ''function''"
proof -
  have h: "typeof PluginA = ''function''" by (simp add: PluginA_def)
  have s: "uses PluginA (JSNumber 7) [PluginB] = Inr [PluginB]"
    by (simp add: uses_def isConstructor_def PluginA_def)
  note t = uses_default_registers [OF h, of "[PluginB]" "JSNumber 7"]
  from t have 1: "uses PluginA JSUndefined [PluginB] = Inr (sort_plugins ([PluginB] @ [PluginA]))"
    by (rule conjunct1)
  have 2: "sort_plugins ([PluginB] @ [PluginA]) = [PluginB, PluginA]"
    by (simp add: sort_plugins_def SortCompare_def comparefn_def priority_def
        PluginA_def PluginB_def)
  from t s have 3: "JSNumber 7 \<noteq> JSUndefined \<and> typeof (JSNumber 7) \<noteq> ''function''"
    by blast
  show ?thesis using h s 1 2 3 by simp
qed

section \<open>The container: construction\<close>

lemma example_container_constructed:
  "Container example_querySelector [PluginB, PluginA] ''#frame'' JSUndefined =
     Inr example_container"
  by (simp add: Container_def example_querySelector_def example_container_def
      PluginA_def PluginB_def)

text \<open>
  Claim C9. When the selector finds no element (\<open>querySelector\<close> returns \<open>null\<close>), the
  constructor throws the error \<open>No iframe was found with the provided selector\<close>; the
  caller gets no container, whatever the options and the registry are.
\<close>

theorem constructor_throws:
  "querySelector iframeSelector = None \<Longrightarrow>
   Container querySelector PLUGINS iframeSelector opts =
     Inl (Error ''No iframe was found with the provided selector'')"
  by (simp add: Container_def)

theorem constructor_throws_witness:
  "example_querySelector ''#missing'' = None
   \<and> Container example_querySelector [PluginB, PluginA] ''#missing'' JSUndefined =
       Inl (Error ''No iframe was found with the provided selector'')"
proof -
  have h: "example_querySelector ''#missing'' = None"
    by (simp add: example_querySelector_def)
  from constructor_throws [of example_querySelector "''#missing''" "[PluginB, PluginA]" JSUndefined] h
  show ?thesis by simp
qed

section \<open>The container: lifecycle\<close>

lemmas call_defs = record_events_def client_trigger_def client_send_def client_respond_def
  main_setAttribute_src_def main_classList_add_def main_classList_remove_def
  plugins_forEach_def plugins_reverse_forEach_def destroyClient_def skip_def

lemma reset_result:
  assumes "main s = ElementRef" "loaded s \<or> loading s \<longrightarrow> client s \<noteq> None"
  shows "reset s = (Normal, s\<lparr>element := (element s)\<lparr>src := [], classList := removeAll ''loading'' (classList (element s))\<rparr>,
                        client := None, loaded := False, loading := False,
                        trace := trace s @
                          (if loaded s \<or> loading s then
                             map (PluginHook closed_hook) (rev (plugins s)) @
                             (case client s of None \<Rightarrow> [] | Some c \<Rightarrow> [BellhopTrigger c ''closed'', BellhopDestroy c])
                           else (case client s of None \<Rightarrow> [] | Some c \<Rightarrow> [BellhopDestroy c]))\<rparr>)"
  using assms
  by (cases "loaded s \<or> loading s"; cases "client s")
     (auto simp add: reset_def Let_def andThen_def call_defs)

lemma reset_Normal_D:
  assumes "reset s = (Normal, s1)"
  shows "main s = ElementRef \<and> (loaded s \<or> loading s \<longrightarrow> client s \<noteq> None)"
  using assms
  by (cases "loaded s \<or> loading s"; cases "main s"; cases "client s")
     (auto simp add: reset_def Let_def andThen_def call_defs)

lemma reset_client_None: "client (snd (reset s)) = None"
  by (cases "loaded s \<or> loading s")
     (auto simp add: reset_def Let_def andThen_def call_defs split: option.splits ref.splits)


lemma internalOpen_Normal_D:
  assumes "internalOpen features_basic userPath userOptions s = (Normal, s')"
  shows "\<not> truthy features_basic \<and> main s = ElementRef
       \<and> (loaded s \<or> loading s \<longrightarrow> client s \<noteq> None)
       \<and> (\<exists>singlePlay playOptions. open_options userOptions = Inr (singlePlay, playOptions))"
proof (cases "open_options userOptions")
  case (Inl e)
  with assms show ?thesis by (simp add: internalOpen_def)
next
  case (Inr p)
  obtain sp po where p: "p = (sp, po)" by (cases p)
  obtain r s1 where r: "reset s = (r, s1)" by (cases "reset s")
  have c: "client s1 = None" using reset_client_None [of s] r by simp
  show ?thesis
  proof (cases r)
    case Normal
    have "\<not> truthy features_basic"
    proof
      assume "truthy features_basic"
      then have "internalOpen features_basic userPath userOptions s = (Throw TypeError, s1)"
        using Inr p r c Normal by (simp add: internalOpen_def andThen_def client_trigger_def)
      with assms show False by simp
    qed
    moreover from r Normal have "reset s = (Normal, s1)" by simp
    note reset_Normal_D [OF this]
    ultimately show ?thesis using Inr p by simp
  next
    case (Throw e)
    then have "internalOpen features_basic userPath userOptions s = (Throw e, s1)"
      using Inr p r by (simp add: internalOpen_def andThen_def)
    with assms show ?thesis by simp
  qed
qed


lemma open_after_reset:
  assumes "main s = ElementRef" "client s = None"
  shows "andThen (\<lambda>s. (Normal, s\<lparr>loading := True\<rparr>))
              (andThen initClient
              (andThen (plugins_forEach open_hook)
              (andThen (main_classList_add ''loading'')
              (andThen (main_setAttribute_src path)
              (andThen (client_respond ''singlePlay'' singlePlay)
              (andThen (client_respond ''playOptions'' playOptions)
                       (client_trigger ''open''))))))) s
     = (Normal, s\<lparr>element := (element s)\<lparr>src := path,
                       classList := (if ''loading'' \<in> set (classList (element s)) then classList (element s)
                             else classList (element s) @ [''loading''])\<rparr>,
                  client := Some (next_client s), next_client := Suc (next_client s),
                  loading := True,
                  trace := trace s @ initClient_events (next_client s)
                      @ map (PluginHook open_hook) (plugins s)
                      @ [BellhopRespond (next_client s) ''singlePlay'' singlePlay,
                         BellhopRespond (next_client s) ''playOptions'' playOptions,
                         BellhopTrigger (next_client s) ''open'']\<rparr>)"
  using assms
  by (simp add: andThen_def call_defs initClient_def Let_def)

lemma internalOpen_supported:
  assumes "main s = ElementRef" "loaded s \<or> loading s \<longrightarrow> client s \<noteq> None"
    "\<not> truthy features_basic" "open_options userOptions = Inr (singlePlay, playOptions)"
  shows "internalOpen features_basic userPath userOptions s =
     (Normal, s\<lparr>element := (element s)\<lparr>src := open_path userPath playOptions,
                       classList := removeAll ''loading'' (classList (element s)) @ [''loading'']\<rparr>,
                  client := Some (next_client s), next_client := Suc (next_client s),
                  loaded := False, loading := True,
                  trace := trace s @
                      (if loaded s \<or> loading s then
                         map (PluginHook closed_hook) (rev (plugins s)) @
                         (case client s of None \<Rightarrow> [] | Some c \<Rightarrow> [BellhopTrigger c ''closed'', BellhopDestroy c])
                       else (case client s of None \<Rightarrow> [] | Some c \<Rightarrow> [BellhopDestroy c]))
                      @ initClient_events (next_client s)
                      @ map (PluginHook open_hook) (plugins s)
                      @ [BellhopRespond (next_client s) ''singlePlay'' singlePlay,
                         BellhopRespond (next_client s) ''playOptions'' playOptions,
                         BellhopTrigger (next_client s) ''open'']\<rparr>)"
proof -
  define s1 where "s1 = s\<lparr>element := (element s)\<lparr>src := [], classList := removeAll ''loading'' (classList (element s))\<rparr>,
                        client := None, loaded := False, loading := False,
                        trace := trace s @
                          (if loaded s \<or> loading s then
                             map (PluginHook closed_hook) (rev (plugins s)) @
                             (case client s of None \<Rightarrow> [] | Some c \<Rightarrow> [BellhopTrigger c ''closed'', BellhopDestroy c])
                           else (case client s of None \<Rightarrow> [] | Some c \<Rightarrow> [BellhopDestroy c]))\<rparr>"
  have r: "reset s = (Normal, s1)"
    unfolding s1_def using assms(1,2) by (rule reset_result)
  have m: "main s1 = ElementRef" "client s1 = None"
    using assms(1) by (simp_all add: s1_def)
  have "internalOpen features_basic userPath userOptions s =
        andThen (\<lambda>s. (Normal, s\<lparr>loading := True\<rparr>))
              (andThen initClient
              (andThen (plugins_forEach open_hook)
              (andThen (main_classList_add ''loading'')
              (andThen (main_setAttribute_src (open_path userPath playOptions))
              (andThen (client_respond ''singlePlay'' singlePlay)
              (andThen (client_respond ''playOptions'' playOptions)
                       (client_trigger ''open''))))))) s1"
    using assms(3,4) r by (simp add: internalOpen_def andThen_def)
  also note open_after_reset [OF m]
  finally show ?thesis by (simp add: s1_def)
qed




lemma example_loading_eq:
  "internalOpen JSNull ''/game'' JSUndefined example_container = (Normal, example_loading)"
  "example_loading =
     \<lparr>element = \<lparr>src = ''/game'', classList = [''loading'']\<rparr>, main = ElementRef, dom = ElementRef,
      client = Some 1, loaded = False, loading = True, options = JSObject [],
      release = JSNull, plugins = [Instance PluginB, Instance PluginA],
      trace = [NewBellhop 0, BellhopDestroy 0] @ initClient_events 1 @
              [PluginHook open_hook (Instance PluginB), PluginHook open_hook (Instance PluginA),
               BellhopRespond 1 ''singlePlay'' (JSBoolean False),
               BellhopRespond 1 ''playOptions'' JSNull, BellhopTrigger 1 ''open''],
      next_client = 2\<rparr>"
  by (simp_all add: example_loading_def example_container_def internalOpen_def open_options_def
      reset_def andThen_def call_defs initClient_def Let_def open_path_def)




lemma internalOpen_src:
  assumes "internalOpen features_basic userPath userOptions s = (Normal, s')"
    and "open_options userOptions = Inr (singlePlay, playOptions)"
  shows "src (element s') = open_path userPath playOptions"
proof -
  from internalOpen_Normal_D [OF assms(1)] have
    h: "\<not> truthy features_basic" "main s = ElementRef"
       "loaded s \<or> loading s \<longrightarrow> client s \<noteq> None"
    by blast+
  from internalOpen_supported [OF h(2,3,1) assms(2), of userPath] assms(1)
  show ?thesis by auto
qed

text \<open>
  Claim C7. After an \<open>open\<close> that returns, the \<open>src\<close> of the iframe is the given path
  when the play options are \<open>null\<close> (absent), and otherwise the path followed by \<open>?\<close>
  (by \<open>&\<close> when the path has a \<open>?\<close> already), \<open>playOptions=\<close> and the URI-encoded
  JSON text of the play options. For \<open>/game\<close> and \<open>{level: 2}\<close> that is
  \<open>/game?playOptions=%7B%22level%22%3A2%7D\<close>.
\<close>

theorem open_sets_src:
  assumes "internalOpen features_basic userPath userOptions s = (Normal, s')"
    and "open_options userOptions = Inr (singlePlay, playOptions)"
  shows "src (element s') =
           (if playOptions = JSNull then userPath
            else userPath @ (if CHR ''?'' \<in> set userPath then ''&'' else ''?'')
                 @ ''playOptions='' @ encodeURIComponent (stringify playOptions))
         \<and> open_path ''/game'' (JSObject [(''level'', JSNumber 2)]) =
             ''/game?playOptions=%7B%22level%22%3A2%7D''"
proof -
  have "open_path ''/game'' (JSObject [(''level'', JSNumber 2)]) =
             ''/game?playOptions=%7B%22level%22%3A2%7D''"
    by (simp add: open_path_def encodeURIComponent_def encode_char_def uriUnescaped_def
        HEX_digit_def QuoteJSONString_def quote_char_def show_int_def)
  then show ?thesis
    using internalOpen_src [OF assms] by (simp add: open_path_def)
qed

theorem open_sets_src_witness:
  "open_options (JSObject [(''playOptions'', JSObject [(''level'', JSNumber 2)])]) =
     Inr (JSBoolean False, JSObject [(''level'', JSNumber 2)])
   \<and> (\<exists>s'. internalOpen JSNull ''/game''
              (JSObject [(''playOptions'', JSObject [(''level'', JSNumber 2)])]) example_container
            = (Normal, s')
          \<and> src (element s') = ''/game?playOptions=%7B%22level%22%3A2%7D'')
   \<and> open_options JSUndefined = Inr (JSBoolean False, JSNull)
   \<and> internalOpen JSNull ''/game'' JSUndefined example_container = (Normal, example_loading)
   \<and> src (element example_loading) = ''/game''"
proof -
  have o1: "open_options (JSObject [(''playOptions'', JSObject [(''level'', JSNumber 2)])]) =
     Inr (JSBoolean False, JSObject [(''level'', JSNumber 2)])"
    by (simp add: open_options_def)
  have o2: "open_options JSUndefined = Inr (JSBoolean False, JSNull)"
    by (simp add: open_options_def)
  have m: "main example_container = ElementRef"
    "loaded example_container \<or> loading example_container \<longrightarrow> client example_container \<noteq> None"
    by (simp_all add: example_container_def)
  have f: "\<not> truthy JSNull" by simp
  obtain s' where s': "internalOpen JSNull ''/game''
              (JSObject [(''playOptions'', JSObject [(''level'', JSNumber 2)])]) example_container
            = (Normal, s')"
    using internalOpen_supported [OF m f o1] by blast
  have e: "(if JSObject [(''level'', JSNumber 2)] = JSNull then ''/game''
            else ''/game'' @ (if CHR ''?'' \<in> set ''/game'' then ''&'' else ''?'')
                 @ ''playOptions='' @ encodeURIComponent (stringify (JSObject [(''level'', JSNumber 2)])))
           = ''/game?playOptions=%7B%22level%22%3A2%7D''"
    by (simp add: encodeURIComponent_def encode_char_def uriUnescaped_def
        HEX_digit_def QuoteJSONString_def quote_char_def show_int_def)
  from open_sets_src [OF s' o1]
  have "src (element s') =
          (if JSObject [(''level'', JSNumber 2)] = JSNull then ''/game''
            else ''/game'' @ (if CHR ''?'' \<in> set ''/game'' then ''&'' else ''?'')
                 @ ''playOptions='' @ encodeURIComponent (stringify (JSObject [(''level'', JSNumber 2)])))"
    by (rule conjunct1)
  with e have 1: "src (element s') = ''/game?playOptions=%7B%22level%22%3A2%7D''"
    by (rule back_subst [where P="\<lambda>r. src (element s') = r", rotated])
  from open_sets_src [OF example_loading_eq(1) o2]
  have 2: "src (element example_loading) = ''/game''"
    by simp
  show ?thesis using o1 o2 s' 1 2 example_loading_eq(1) by blast
qed

text \<open>
  Claim C3. In an unsupported environment \<open>open\<close> is to trigger \<open>unsupported\<close> once.
  On the freshly constructed container, with \<open>Features.basic()\<close> returning a message,
  the code throws a TypeError instead: \<open>reset()\<close> has destroyed the client and set
  \<open>this.client\<close> to \<open>null\<close> before \<open>this.client.trigger('unsupported')\<close> is
  evaluated. The trace holds the construction and the destruction of the first client and
  no \<open>unsupported\<close> event; no client is created, no hook runs, \<open>loading\<close> stays unset.
\<close>

theorem unsupported_open_throws:
  "internalOpen (JSString ''WebGL is not supported'') ''/game'' JSUndefined example_container =
     (Throw TypeError,
      example_container\<lparr>client := None, trace := [NewBellhop 0, BellhopDestroy 0]\<rparr>)"
  by (simp add: example_container_def internalOpen_def open_options_def
      reset_def andThen_def call_defs Let_def)

lemma internalOpen_unsupported:
  assumes "truthy features_basic"
  shows "\<exists>e. fst (internalOpen features_basic userPath userOptions s) = Throw e"
proof (cases "fst (internalOpen features_basic userPath userOptions s)")
  case Normal
  then have "internalOpen features_basic userPath userOptions s =
     (Normal, snd (internalOpen features_basic userPath userOptions s))"
    by (metis prod.collapse)
  from internalOpen_Normal_D [OF this] assms show ?thesis by simp
next
  case (Throw e)
  then show ?thesis by simp
qed

lemma openPath_boolean:
  "openPath features_basic path (JSBoolean b) playOpts =
   internalOpen features_basic path
     (JSObject [(''singlePlay'', JSBoolean False),
                (''playOptions'', if playOpts = JSUndefined then JSObject [] else playOpts)])"
  by (simp add: openPath_def)

text \<open>
  Claim C2. \<open>openPath(path, true, null)\<close> is to behave as the call with the options
  \<open>{singlePlay: true, playOptions: null}\<close>. On the example container the code responds
  to \<open>singlePlay\<close> with \<open>false\<close>, never with \<open>true\<close>, and ends in the state of an
  \<open>open\<close> without options, which is not the state the call with \<open>singlePlay: true\<close>
  leaves: the object literal of \<open>openPath\<close> has the constant \<open>false\<close> where the
  boolean argument belongs.
\<close>

theorem openPath_boolean_singlePlay_lost:
  "openPath JSNull ''/game'' (JSBoolean True) JSNull example_container =
     (Normal, example_loading)
   \<and> BellhopRespond 1 ''singlePlay'' (JSBoolean False) \<in> set (trace example_loading)
   \<and> BellhopRespond 1 ''singlePlay'' (JSBoolean True) \<notin> set (trace example_loading)
   \<and> openPath JSNull ''/game'' (JSBoolean True) JSNull example_container \<noteq>
     internalOpen JSNull ''/game''
       (JSObject [(''singlePlay'', JSBoolean True), (''playOptions'', JSNull)]) example_container"
  by (simp add: example_loading_eq(2) openPath_def example_container_def internalOpen_def
      open_options_def reset_def andThen_def call_defs initClient_def initClient_events_def
      Let_def open_path_def)

section \<open>The container: hooks and priority order\<close>



















section \<open>The captions plugin: reading back and clearing\<close>

lemmas pattern_defs = invalid_style_def colorReg_def color_names_def backgroundReg_def
  sizeReg_def edgeReg_def fontReg_def alignReg_def ends_with_def

lemma validate_defaults: "validate DEFAULT_CAPTIONS_STYLES = None"
  by (simp add: validate_def DEFAULT_CAPTIONS_STYLES_def pattern_defs)

lemma captionsStyles_write_styles: "captionsStyles (write_styles p) = captionsStyles p"
  by (simp add: write_styles_def Let_def)

lemma captionsStyles_set_object:
  "captionsStyles (snd (setCaptionsStyles DEBUG (StylesObject st) p)) = captionsStyles p ++ st"
  by (simp add: setCaptionsStyles_def Let_def Object_merge_def captionsStyles_write_styles
      split: option.splits)

lemma clearCaptionsStyles_result:
  "clearCaptionsStyles DEBUG p =
     (Returned, write_styles (p\<lparr>captionsStyles := DEFAULT_CAPTIONS_STYLES\<rparr>))"
  by (simp add: clearCaptionsStyles_def setCaptionsStyles_def Object_merge_def Let_def
      validate_defaults)

text \<open>
  Claim C8. After \<open>setCaptionsStyles(styles)\<close> with a styles object, \<open>getCaptionsStyles\<close>
  returns the value given for each property \<open>k\<close> of the object, by name and in the
  whole object; the call returns when \<open>DEBUG\<close> is not set or the merged styles pass the
  validation. \<open>clearCaptionsStyles()\<close> returns and leaves exactly the defaults: \<open>size\<close>
  \<open>md\<close>, \<open>background\<close> \<open>black-semi\<close>, \<open>color\<close> \<open>white\<close>, \<open>edge\<close> \<open>none\<close>, \<open>font\<close>
  \<open>arial\<close>, \<open>align\<close> \<open>top\<close>.
\<close>

theorem captions_styles_round_trip:
  assumes "st k = Some v" and "k \<noteq> []"
  shows "getCaptionsStyles (Some k) (snd (setCaptionsStyles DEBUG (StylesObject st) p))
           = StyleValue (Some v)
     \<and> (\<exists>all. getCaptionsStyles None (snd (setCaptionsStyles DEBUG (StylesObject st) p))
                 = AllStyles all \<and> all k = Some v)
     \<and> ((DEBUG \<longrightarrow> validate (Object_merge (captionsStyles p) st) = None) \<longrightarrow>
          fst (setCaptionsStyles DEBUG (StylesObject st) p) = Returned)
     \<and> fst (clearCaptionsStyles DEBUG p) = Returned
     \<and> captionsStyles (snd (clearCaptionsStyles DEBUG p)) = DEFAULT_CAPTIONS_STYLES
     \<and> getCaptionsStyles None (snd (clearCaptionsStyles DEBUG p)) =
         AllStyles [''size'' \<mapsto> ''md'', ''background'' \<mapsto> ''black-semi'', ''color'' \<mapsto> ''white'',
                    ''edge'' \<mapsto> ''none'', ''font'' \<mapsto> ''arial'', ''align'' \<mapsto> ''top'']
     \<and> getCaptionsStyles (Some ''size'') (snd (clearCaptionsStyles DEBUG p)) = StyleValue (Some ''md'')
     \<and> getCaptionsStyles (Some ''background'') (snd (clearCaptionsStyles DEBUG p))
         = StyleValue (Some ''black-semi'')
     \<and> getCaptionsStyles (Some ''color'') (snd (clearCaptionsStyles DEBUG p))
         = StyleValue (Some ''white'')
     \<and> getCaptionsStyles (Some ''edge'') (snd (clearCaptionsStyles DEBUG p))
         = StyleValue (Some ''none'')
     \<and> getCaptionsStyles (Some ''font'') (snd (clearCaptionsStyles DEBUG p))
         = StyleValue (Some ''arial'')
     \<and> getCaptionsStyles (Some ''align'') (snd (clearCaptionsStyles DEBUG p))
         = StyleValue (Some ''top'')"
proof -
  have 1: "getCaptionsStyles (Some k) (snd (setCaptionsStyles DEBUG (StylesObject st) p))
           = StyleValue (Some v)"
    using assms by (simp add: getCaptionsStyles_def captionsStyles_set_object)
  have 2: "\<exists>all. getCaptionsStyles None (snd (setCaptionsStyles DEBUG (StylesObject st) p))
                 = AllStyles all \<and> all k = Some v"
    using assms by (simp add: getCaptionsStyles_def captionsStyles_set_object)
  have 3: "fst (setCaptionsStyles DEBUG (StylesObject st) p) = Returned"
    if "DEBUG \<longrightarrow> validate (Object_merge (captionsStyles p) st) = None"
    using that by (simp add: setCaptionsStyles_def Let_def)
  have 4: "captionsStyles (snd (clearCaptionsStyles DEBUG p)) = DEFAULT_CAPTIONS_STYLES"
    by (simp add: clearCaptionsStyles_result captionsStyles_write_styles)
  have 5: "fst (clearCaptionsStyles DEBUG p) = Returned"
    by (simp add: clearCaptionsStyles_result)
  have 6: "getCaptionsStyles None (snd (clearCaptionsStyles DEBUG p)) =
         AllStyles [''size'' \<mapsto> ''md'', ''background'' \<mapsto> ''black-semi'', ''color'' \<mapsto> ''white'',
                    ''edge'' \<mapsto> ''none'', ''font'' \<mapsto> ''arial'', ''align'' \<mapsto> ''top'']"
    by (simp add: getCaptionsStyles_def 4) (simp add: DEFAULT_CAPTIONS_STYLES_def)
  have 7: "getCaptionsStyles (Some ''size'') (snd (clearCaptionsStyles DEBUG p)) = StyleValue (Some ''md'')"
    "getCaptionsStyles (Some ''background'') (snd (clearCaptionsStyles DEBUG p))
         = StyleValue (Some ''black-semi'')"
    "getCaptionsStyles (Some ''color'') (snd (clearCaptionsStyles DEBUG p))
         = StyleValue (Some ''white'')"
    "getCaptionsStyles (Some ''edge'') (snd (clearCaptionsStyles DEBUG p))
         = StyleValue (Some ''none'')"
    "getCaptionsStyles (Some ''font'') (snd (clearCaptionsStyles DEBUG p))
         = StyleValue (Some ''arial'')"
    "getCaptionsStyles (Some ''align'') (snd (clearCaptionsStyles DEBUG p))
         = StyleValue (Some ''top'')"
    by (simp_all add: getCaptionsStyles_def 4) (simp_all add: DEFAULT_CAPTIONS_STYLES_def)
  show ?thesis
    using 1 2 3 4 5 6 7 by blast
qed

theorem captions_styles_round_trip_witness:
  "[''font'' \<mapsto> ''comic-sans''] ''font'' = Some ''comic-sans'' \<and> ''font'' \<noteq> []
   \<and> validate (Object_merge (captionsStyles example_captions) [''font'' \<mapsto> ''comic-sans'']) = None
   \<and> fst (setCaptionsStyles True (StylesObject [''font'' \<mapsto> ''comic-sans'']) example_captions)
       = Returned
   \<and> getCaptionsStyles (Some ''font'')
        (snd (setCaptionsStyles True (StylesObject [''font'' \<mapsto> ''comic-sans'']) example_captions))
       = StyleValue (Some ''comic-sans'')
   \<and> getCaptionsStyles (Some ''font'')
        (snd (clearCaptionsStyles True
           (snd (setCaptionsStyles True (StylesObject [''font'' \<mapsto> ''comic-sans''])
                   example_captions))))
       = StyleValue (Some ''arial'')"
proof -
  have h: "[''font'' \<mapsto> ''comic-sans''] ''font'' = Some ''comic-sans''" "''font'' \<noteq> []"
    by simp_all
  have v: "validate (Object_merge (captionsStyles example_captions) [''font'' \<mapsto> ''comic-sans''])
      = None"
    by (simp add: example_captions_def Object_merge_def validate_def DEFAULT_CAPTIONS_STYLES_def
        pattern_defs)
  note t = captions_styles_round_trip [where st = "[''font'' \<mapsto> ''comic-sans'']"
      and k = "''font''" and v = "''comic-sans''" and DEBUG = True and p = example_captions, OF h]
  note u = captions_styles_round_trip [where st = "[''font'' \<mapsto> ''comic-sans'']"
      and k = "''font''" and v = "''comic-sans''" and DEBUG = True
      and p = "snd (setCaptionsStyles True (StylesObject [''font'' \<mapsto> ''comic-sans''])
                 example_captions)", OF h]
  from t have 1: "getCaptionsStyles (Some ''font'')
        (snd (setCaptionsStyles True (StylesObject [''font'' \<mapsto> ''comic-sans'']) example_captions))
       = StyleValue (Some ''comic-sans'')"
    by (rule conjunct1)
  from t v have 2: "fst (setCaptionsStyles True (StylesObject [''font'' \<mapsto> ''comic-sans''])
      example_captions) = Returned"
    by blast
  from u have 3: "getCaptionsStyles (Some ''font'')
        (snd (clearCaptionsStyles True
           (snd (setCaptionsStyles True (StylesObject [''font'' \<mapsto> ''comic-sans''])
                   example_captions))))
       = StyleValue (Some ''arial'')"
    by blast
  show ?thesis
    by (intro conjI) (rule h v 1 2 3)+
qed

end
